theory Spec2Isabelle
  imports Complex_Main "HOL-Library.Word"
begin

unbundle bit_operations_syntax

section \<open>Scalars, errors and assertions\<close>

text \<open>
  \<open>int32\<close> is a 32-bit machine integer (read as two's complement by \<open>sint\<close>).
  A \<open>BaseFloat\<close> or \<open>double\<close> value is the real number it stands for. Where the source
  stores a floating-point literal in a member, the literal is rounded to the format of the
  member (\<open>round_to_format\<close> below); sums of such values are added exactly, without the
  rounding of the machine addition.
\<close>

type_synonym int32 = "32 word"
type_synonym BaseFloat = real
type_synonym double = real

text \<open>
  A binary floating-point format: the number of significand bits \<open>precision\<close> (the hidden
  bit counted), the spacing \<open>2 ^ - max_scale\<close> of its smallest (subnormal) numbers and the
  spacing \<open>2 ^ max_exp\<close> of its largest ones. \<open>float\<close> is \<open>binary32\<close> and \<open>double\<close> is
  \<open>binary64\<close>. The typedef of \<open>BaseFloat\<close> (base/kaldi-types.h) is not at hand: its format
  is a parameter where a value is converted to it.
\<close>

record float_format =
  precision :: nat
  max_scale :: nat
  max_exp :: nat

definition binary32 :: float_format where
  "binary32 = \<lparr> precision = 24, max_scale = 149, max_exp = 104 \<rparr>"

definition binary64 :: float_format where
  "binary64 = \<lparr> precision = 53, max_scale = 1074, max_exp = 971 \<rparr>"

text \<open>
  Rounding to the nearest number of a format, ties to the even significand, as a literal
  and a conversion from \<open>double\<close> to \<open>float\<close> are rounded. A magnitude \<open>a\<close> below
  \<open>2 ^ precision\<close> is scaled up by the least \<open>2 ^ k\<close> that makes it a full significand
  (at most by \<open>2 ^ max_scale\<close>), a larger one is scaled down by the least \<open>2 ^ j\<close> that
  brings it below \<open>2 ^ precision\<close>; the scaled magnitude is rounded to an integer and
  scaled back. A value that rounds beyond the largest number of the format has no finite
  result: \<open>None\<close>.
\<close>

definition round_half_even :: "real \<Rightarrow> int" where
  "round_half_even y =
     (let f = \<lfloor>y\<rfloor>; d = y - of_int f
      in if d < 1 / 2 then f else if 1 / 2 < d then f + 1 else if even f then f else f + 1)"

fun scale_up :: "nat \<Rightarrow> nat \<Rightarrow> real \<Rightarrow> nat" where
  "scale_up 0 p a = 0"
| "scale_up (Suc fuel) p a = (if 2 ^ (p - 1) \<le> a then 0 else Suc (scale_up fuel p (2 * a)))"

fun scale_down :: "nat \<Rightarrow> nat \<Rightarrow> real \<Rightarrow> nat" where
  "scale_down 0 p a = 0"
| "scale_down (Suc fuel) p a = (if a < 2 ^ p then 0 else Suc (scale_down fuel p (a / 2)))"

definition round_to_format :: "float_format \<Rightarrow> real \<Rightarrow> real option" where
  "round_to_format fmt x =
     (let a = \<bar>x\<bar>; p = precision fmt in
      if a < 2 ^ p then
        (let k = scale_up (max_scale fmt) p a
         in Some (sgn x * of_int (round_half_even (a * 2 ^ k)) / 2 ^ k))
      else
        (let j = scale_down (Suc (max_exp fmt)) p a; m = round_half_even (a / 2 ^ j)
         in if max_exp fmt < j \<or> (j = max_exp fmt \<and> m = 2 ^ p) then None
            else Some (sgn x * of_int m * 2 ^ j)))"

text \<open>
  The ways a call can fail. \<open>AssertFailure\<close> is a failed \<open>KALDI_ASSERT\<close>; the other
  constructors are the error classes of the specification (section 7).
\<close>

datatype error =
    AssertFailure
  | DimensionMismatch
  | FormatError
  | UnknownType

text \<open>
  Modelled from the spec: the macro \<open>KALDI_ASSERT\<close> comes from base/kaldi-error.h, which is
  not part of the sources at hand. The specification calls a failed assertion of this kind
  fatal, so a false condition ends the call with an error and a true one continues.
\<close>

definition KALDI_ASSERT :: "bool \<Rightarrow> error + unit" where
  "KALDI_ASSERT cond = (if cond then Inr () else Inl AssertFailure)"


section \<open>nnet3/nnet-component-itf.h\<close>

subsection \<open>enum ComponentProperties\<close>

definition kSimpleComponent :: int32 where "kSimpleComponent = 0x001"
definition kUpdatableComponent :: int32 where "kUpdatableComponent = 0x002"
definition kLinearInInput :: int32 where "kLinearInInput = 0x004"
definition kLinearInParameters :: int32 where "kLinearInParameters = 0x008"
definition kBackpropNeedsInput :: int32 where "kBackpropNeedsInput = 0x010"
definition kBackpropNeedsOutput :: int32 where "kBackpropNeedsOutput = 0x020"
definition kPropagateInPlace :: int32 where "kPropagateInPlace = 0x040"
definition kBackpropInPlace :: int32 where "kBackpropInPlace = 0x080"
definition kPropagateAdds :: int32 where "kPropagateAdds = 0x100"
definition kBackpropAdds :: int32 where "kBackpropAdds = 0x200"

subsection \<open>class Component\<close>

text \<open>
  Class \<open>Component\<close> has no data members. Its pure virtual functions \<open>Type()\<close>,
  \<open>InputDim()\<close>, \<open>OutputDim()\<close> and \<open>Properties()\<close> are answered by the concrete class of
  the object; an object is represented by these four answers. The types \<open>Index\<close>,
  \<open>MiscComputationInfo\<close> (nnet3/nnet-common.h) and the subclasses of
  \<open>ComponentPrecomputedIndexes\<close> are not declared in this header: they are type parameters
  \<open>'index\<close>, \<open>'misc\<close> and \<open>'pre\<close>.
\<close>

record Component =
  Type :: string
  InputDim :: int32
  OutputDim :: int32
  Properties :: int32

text \<open>
  \<open>virtual ComponentPrecomputedIndexes* PrecomputeIndexes(...) const { return NULL; }\<close>:
  the body every class inherits that does not override it. \<open>None\<close> is the null pointer.
\<close>

definition Component_PrecomputeIndexes ::
  "Component \<Rightarrow> 'misc \<Rightarrow> 'index list \<Rightarrow> 'index list \<Rightarrow> bool \<Rightarrow> 'pre option" where
  "Component_PrecomputeIndexes this misc_info input_indexes output_indexes need_backprop = None"

text \<open>
  Modelled from the spec: the body of \<open>Component::GetInputIndexes\<close> is in
  nnet3/nnet-component-itf.cc, which is not at hand; the header only declares it. Its
  comment there reads "it just copies the output_index to a single identical input_index",
  and the specification: "the singleton list containing exactly the output index
  unchanged". The output parameter \<open>input_indexes\<close> is the result.
\<close>

definition Component_GetInputIndexes :: "Component \<Rightarrow> 'misc \<Rightarrow> 'index \<Rightarrow> 'index list" where
  "Component_GetInputIndexes this misc_info output_index = [output_index]"

text \<open>
  Modelled from the spec: the registry behind \<open>NewComponentOfType\<close> and \<open>ReadNew\<close>, and
  the bodies of both (nnet3/nnet-component-itf.cc), are not at hand. The registry is "a
  process-wide mapping from type-name string to a factory function"; a factory is
  represented by the component it makes. \<open>NewComponentOfType\<close> is the "registry lookup;
  returns null (not an error) for unrecognized names": its result is \<open>Inr None\<close> for the
  null pointer, and it has no \<open>Inl\<close> result.
\<close>

type_synonym 'c registry = "string \<rightharpoonup> 'c"

definition NewComponentOfType :: "'c registry \<Rightarrow> string \<Rightarrow> error + 'c option" where
  "NewComponentOfType registry type_name = Inr (registry type_name)"

text \<open>
  Modelled from the spec: \<open>ReadNew\<close> "reads the type token, instantiates the matching
  concrete type via a type-name registry, and delegates to its Read. Fails with an
  unknown-type error if the token is unrecognized." The stream is the list of the tokens
  still to be read; a stream with no token left is a format error. \<open>Read\<close> is the
  (pure virtual) reader of the concrete classes, a parameter.
\<close>

definition ReadNew ::
  "'c registry \<Rightarrow> ('c \<Rightarrow> string list \<Rightarrow> bool \<Rightarrow> error + 'c) \<Rightarrow> string list \<Rightarrow> bool \<Rightarrow> error + 'c"
  where
  "ReadNew registry Read is binary =
     (case is of
        [] \<Rightarrow> Inl FormatError
      | token # rest \<Rightarrow>
          (case NewComponentOfType registry token of
             Inl e \<Rightarrow> Inl e
           | Inr None \<Rightarrow> Inl UnknownType
           | Inr (Some ans) \<Rightarrow> Read ans rest binary))"

subsection \<open>class UpdatableComponent\<close>

text \<open>
  The two data members \<^verbatim>\<open>learning_rate_\<close> and \<^verbatim>\<open>is_gradient_\<close> (a name cannot end in
  an underscore here, so the members of this file carry the suffix \<open>_mem\<close>). The flag
  is a \<open>bool\<close> that a constructor may leave unwritten: \<open>None\<close> is the indeterminate
  value of a member that nothing has assigned yet.
\<close>

record UpdatableComponent =
  learning_rate_mem :: BaseFloat
  is_gradient_mem :: "bool option"

text \<open>
  \<^verbatim>\<open>UpdatableComponent(): learning_rate_(0.001) { }\<close>: the member initialiser list
  names the learning rate only and the body is empty. The literal \<open>0.001\<close> is a \<open>double\<close>
  (the decimal rounded to \<open>binary64\<close>), and initialising the \<open>BaseFloat\<close> member converts
  it to the format of \<open>BaseFloat\<close>.
\<close>

definition UpdatableComponent_default :: "float_format \<Rightarrow> UpdatableComponent option" where
  "UpdatableComponent_default BaseFloat_format =
     (case round_to_format binary64 0.001 of
        None \<Rightarrow> None
      | Some literal \<Rightarrow>
          (case round_to_format BaseFloat_format literal of
             None \<Rightarrow> None
           | Some rate \<Rightarrow> Some \<lparr> learning_rate_mem = rate, is_gradient_mem = None \<rparr>))"

text \<open>
  \<open>UpdatableComponent(const UpdatableComponent &other)\<close> copies both members.
\<close>

definition UpdatableComponent_copy :: "UpdatableComponent \<Rightarrow> UpdatableComponent" where
  "UpdatableComponent_copy other =
     \<lparr> learning_rate_mem = learning_rate_mem other, is_gradient_mem = is_gradient_mem other \<rparr>"

definition SetLearningRate ::
  "BaseFloat \<Rightarrow> 'a UpdatableComponent_scheme \<Rightarrow> 'a UpdatableComponent_scheme" where
  "SetLearningRate lrate this = this\<lparr> learning_rate_mem := lrate \<rparr>"

definition LearningRate :: "'a UpdatableComponent_scheme \<Rightarrow> BaseFloat" where
  "LearningRate this = learning_rate_mem this"

text \<open>
  The default bodies of the three vectorisation hooks:
  \<open>GetParameterDim() const { KALDI_ASSERT(0); return 0; }\<close>,
  \<open>Vectorize(VectorBase<BaseFloat> *params) const { KALDI_ASSERT(0); }\<close> and
  \<open>UnVectorize(const VectorBase<BaseFloat> &params) { KALDI_ASSERT(0); }\<close>.
  \<open>Vectorize\<close> returns the vector it was given to fill, \<open>UnVectorize\<close> the object.
\<close>

definition GetParameterDim :: "UpdatableComponent \<Rightarrow> error + int32" where
  "GetParameterDim this =
     (case KALDI_ASSERT False of Inl e \<Rightarrow> Inl e | Inr _ \<Rightarrow> Inr 0)"

definition Vectorize :: "UpdatableComponent \<Rightarrow> BaseFloat list \<Rightarrow> error + BaseFloat list" where
  "Vectorize this params =
     (case KALDI_ASSERT False of Inl e \<Rightarrow> Inl e | Inr _ \<Rightarrow> Inr params)"

definition UnVectorize :: "BaseFloat list \<Rightarrow> UpdatableComponent \<Rightarrow> error + UpdatableComponent" where
  "UnVectorize params this =
     (case KALDI_ASSERT False of Inl e \<Rightarrow> Inl e | Inr _ \<Rightarrow> Inr this)"

text \<open>
  Modelled from the spec: \<open>SetZero\<close> is pure virtual in \<open>UpdatableComponent\<close>, and the
  concrete classes that implement it are not at hand. "Parameter state itself is owned by
  concrete subclasses": a concrete updatable component is the base object extended by the
  list of its parameter values. \<open>SetZero(treat_as_gradient)\<close> "zeroes all parameters; if
  treat_as_gradient, also sets is_gradient=true and resets learning_rate=1.0" (the header's
  comment says the same).
\<close>

record ConcreteUpdatableComponent = UpdatableComponent +
  params_mem :: "BaseFloat list"

definition SetZero :: "bool \<Rightarrow> ConcreteUpdatableComponent \<Rightarrow> ConcreteUpdatableComponent" where
  "SetZero treat_as_gradient this =
     (let zeroed = this\<lparr> params_mem := map (\<lambda>_. 0) (params_mem this) \<rparr>
      in if treat_as_gradient
         then zeroed\<lparr> is_gradient_mem := Some True, learning_rate_mem := 1.0 \<rparr>
         else zeroed)"

subsection \<open>class NonlinearComponent\<close>

text \<open>
  The data members \<^verbatim>\<open>dim_\<close>, \<^verbatim>\<open>value_sum_\<close>, \<^verbatim>\<open>deriv_sum_\<close> and
  \<^verbatim>\<open>count_\<close>; a \<open>CuVector<double>\<close> is the list of its elements. The mutex is left out: calls are
  modelled one at a time.
\<close>

record NonlinearComponent =
  dim_mem :: int32
  value_sum_mem :: "double list"
  deriv_sum_mem :: "double list"
  count_mem :: double

text \<open>\<^verbatim>\<open>void Init(int32 dim) { dim_ = dim; count_ = 0.0; }\<close>\<close>

definition NonlinearComponent_Init :: "int32 \<Rightarrow> NonlinearComponent \<Rightarrow> NonlinearComponent" where
  "NonlinearComponent_Init dim' this = this\<lparr> dim_mem := dim', count_mem := 0.0 \<rparr>"


definition NonlinearComponent_InputDim :: "NonlinearComponent \<Rightarrow> int32" where
  "NonlinearComponent_InputDim this = dim_mem this"

definition NonlinearComponent_OutputDim :: "NonlinearComponent \<Rightarrow> int32" where
  "NonlinearComponent_OutputDim this = dim_mem this"

definition ValueSum :: "NonlinearComponent \<Rightarrow> double list" where
  "ValueSum this = value_sum_mem this"

definition DerivSum :: "NonlinearComponent \<Rightarrow> double list" where
  "DerivSum this = deriv_sum_mem this"

definition Count :: "NonlinearComponent \<Rightarrow> double" where
  "Count this = count_mem this"





definition AddVec :: "double list \<Rightarrow> double list \<Rightarrow> double list" where
  "AddVec v w = map2 (+) v w"

definition Resize :: "nat \<Rightarrow> double list \<Rightarrow> double list" where
  "Resize n v = (if length v = n then v else replicate n 0)"



section \<open>cudamatrix/cu-sparse-matrix.h\<close>

text \<open>
  Modelled from the spec: \<open>SparseVector\<close>, \<open>SparseMatrix\<close> and \<open>MatrixElement\<close> are declared
  in headers that are not at hand. A sparse vector is the "ordered set of (column-index,
  value) pairs" of one row, a host sparse matrix the sequence of its rows, and a matrix
  element a "(row, column, value)" triple. The value type \<open>Real\<close> is the type parameter
  \<open>'r\<close>.
\<close>

type_synonym 'r SparseVector = "(nat \<times> 'r) list"
type_synonym 'r SparseMatrix = "'r SparseVector list"
type_synonym 'r MatrixElement = "nat \<times> nat \<times> 'r"

text \<open>
  The two data members of \<open>CuSparseMatrix\<close>, \<^verbatim>\<open>cpu_rows_\<close> ("only used if we did not
  compile for the GPU, or if the GPU is not enabled") and \<^verbatim>\<open>elements_\<close> ("where the data
  lives if we are using a GPU"). Whether the GPU is enabled is the parameter \<open>enabled\<close>
  of the functions below.
\<close>

record 'r CuSparseMatrix =
  cpu_rows_mem :: "'r SparseVector list"
  elements_mem :: "'r MatrixElement list"

text \<open>
  Modelled from the spec: the bodies of the member functions are not at hand. Assignment
  from a host matrix "deep-copies a host sparse matrix's rows; if accelerator execution is
  enabled, flattens rows into the triple list instead; replaces prior content".
  \<open>flatten_rows r vs\<close> lists the elements of the rows \<open>vs\<close>, the first of which has the
  row index \<open>r\<close>, row after row.
\<close>

fun flatten_rows :: "nat \<Rightarrow> 'r SparseVector list \<Rightarrow> 'r MatrixElement list" where
  "flatten_rows r [] = []"
| "flatten_rows r (v # vs) = map (\<lambda>(c, x). (r, c, x)) v @ flatten_rows (Suc r) vs"

definition CuSparseMatrix_assign ::
  "bool \<Rightarrow> 'r SparseMatrix \<Rightarrow> 'r CuSparseMatrix \<Rightarrow> 'r CuSparseMatrix" where
  "CuSparseMatrix_assign enabled smat this =
     (if enabled then this\<lparr> elements_mem := flatten_rows 0 smat \<rparr>
      else this\<lparr> cpu_rows_mem := smat \<rparr>)"

text \<open>
  Modelled from the spec: the conversion back to host form. The two representations "must
  be convertible into each other without loss"; the header declares \<open>Swap\<close> as the one
  function that hands the content to a host matrix and stores no number of rows. The
  host form of the representation in use is the row list itself, or the triples grouped
  by their row index, each row in the order of the list, with as many rows as the largest
  row index needs. \<open>Swap\<close> "exchanges internal storage": the object takes the content of
  the host matrix and the host matrix the content of the object; the result is the pair
  of the new object and the new host matrix.
\<close>

definition row_of :: "'r MatrixElement list \<Rightarrow> nat \<Rightarrow> 'r SparseVector" where
  "row_of elems r = map snd (filter (\<lambda>e. fst e = r) elems)"

definition rows_needed :: "'r MatrixElement list \<Rightarrow> nat" where
  "rows_needed elems = fold (\<lambda>e n. max n (Suc (fst e))) elems 0"

definition group_rows :: "'r MatrixElement list \<Rightarrow> 'r SparseVector list" where
  "group_rows elems = map (row_of elems) [0..<rows_needed elems]"

definition CuSparseMatrix_to_host :: "bool \<Rightarrow> 'r CuSparseMatrix \<Rightarrow> 'r SparseMatrix" where
  "CuSparseMatrix_to_host enabled this =
     (if enabled then group_rows (elements_mem this) else cpu_rows_mem this)"

definition CuSparseMatrix_Swap ::
  "bool \<Rightarrow> 'r SparseMatrix \<Rightarrow> 'r CuSparseMatrix \<Rightarrow> 'r CuSparseMatrix \<times> 'r SparseMatrix" where
  "CuSparseMatrix_Swap enabled smat this =
     (CuSparseMatrix_assign enabled smat this, CuSparseMatrix_to_host enabled this)"

text \<open>The set of (row, column, value) entries of a host sparse matrix.\<close>

definition entries :: "'r SparseMatrix \<Rightarrow> (nat \<times> nat \<times> 'r) set" where
  "entries smat = {(r, c, x). r < length smat \<and> (c, x) \<in> set (smat ! r)}"


section \<open>Properties\<close>

subsection \<open>NonlinearComponent::Init\<close>

text \<open>
  C1 (as stated, refuted). The claim says that \<open>Init(dim)\<close> resets \<open>value_sum\<close> and
  \<open>deriv_sum\<close> to zero. On a component that holds the sums \<open>[5]\<close> and \<open>[7]\<close>, \<open>Init(1)\<close>
  leaves both as they are: neither is the zero vector afterwards.
\<close>

theorem Init_resets_sums_counterexample:
  "ValueSum (NonlinearComponent_Init 1
      \<lparr> dim_mem = 1, value_sum_mem = [5], deriv_sum_mem = [7], count_mem = 2 \<rparr>) = [5]
   \<and> DerivSum (NonlinearComponent_Init 1
      \<lparr> dim_mem = 1, value_sum_mem = [5], deriv_sum_mem = [7], count_mem = 2 \<rparr>) = [7]
   \<and> [5] \<noteq> [0 :: double] \<and> [7] \<noteq> [0 :: double]"
  by (simp add: NonlinearComponent_Init_def ValueSum_def DerivSum_def)

text \<open>
  C1 (amended). For every NonlinearComponent, \<open>Init(dim)\<close> fixes the dimension (both
  \<open>InputDim()\<close> and \<open>OutputDim()\<close>) to \<open>dim\<close> and resets \<open>count\<close> to zero; \<open>value_sum\<close> and
  \<open>deriv_sum\<close> are left exactly as they were.
\<close>

theorem Init_sets_dim_and_count:
  "NonlinearComponent_InputDim (NonlinearComponent_Init dim' this) = dim'
   \<and> NonlinearComponent_OutputDim (NonlinearComponent_Init dim' this) = dim'
   \<and> Count (NonlinearComponent_Init dim' this) = 0
   \<and> ValueSum (NonlinearComponent_Init dim' this) = ValueSum this
   \<and> DerivSum (NonlinearComponent_Init dim' this) = DerivSum this"
  by (simp add: NonlinearComponent_Init_def NonlinearComponent_InputDim_def
      NonlinearComponent_OutputDim_def Count_def ValueSum_def DerivSum_def)

subsection \<open>Component::PrecomputeIndexes\<close>

text \<open>
  C4. For every simple component (\<open>Properties()\<close> has the bit \<open>kSimpleComponent\<close>), every
  misc-info, input-index list, output-index list and \<open>need_backprop\<close> flag,
  \<open>PrecomputeIndexes\<close> (the body of class \<open>Component\<close>) returns the null pointer.
\<close>

theorem PrecomputeIndexes_simple_null:
  "Properties this AND kSimpleComponent \<noteq> 0 \<Longrightarrow>
   Component_PrecomputeIndexes this misc_info input_indexes output_indexes need_backprop = None"
  by (simp add: Component_PrecomputeIndexes_def)

theorem PrecomputeIndexes_simple_null_witness:
  "Properties \<lparr> Type = ''SigmoidComponent'', InputDim = 4, OutputDim = 4,
                Properties = 0x021 \<rparr> AND kSimpleComponent \<noteq> 0
   \<and> Component_PrecomputeIndexes
        \<lparr> Type = ''SigmoidComponent'', InputDim = 4, OutputDim = 4, Properties = 0x021 \<rparr>
        () [Suc 0, 2] [Suc 0, 2] True = (None :: unit option)"
proof -
  have simple: "Properties \<lparr> Type = ''SigmoidComponent'', InputDim = 4, OutputDim = 4,
                  Properties = 0x021 \<rparr> AND kSimpleComponent \<noteq> 0"
    by (simp add: kSimpleComponent_def)
  show ?thesis
    using PrecomputeIndexes_simple_null [OF simple] simple by simp
qed

subsection \<open>The default vectorisation hooks of UpdatableComponent\<close>

text \<open>
  C8. On an UpdatableComponent whose class does not override them, \<open>GetParameterDim\<close>,
  \<open>Vectorize\<close> and \<open>UnVectorize\<close> each end in the failed assertion \<open>KALDI_ASSERT(0)\<close>:
  none of the three returns normally, whatever the object and the argument.
\<close>

theorem default_vectorize_hooks_fail:
  "GetParameterDim this = Inl AssertFailure
   \<and> Vectorize this params = Inl AssertFailure
   \<and> UnVectorize params this = Inl AssertFailure"
  by (simp add: GetParameterDim_def Vectorize_def UnVectorize_def KALDI_ASSERT_def)

subsection \<open>The default constructor of UpdatableComponent\<close>

lemma literal_0_001: "round_to_format binary64 0.001 = Some (1152921504606847 / 2 ^ 60)"
proof -
  have "scale_up 1074 53 (1 / 1000) = 62"
    by (simp add: eval_nat_numeral)
  then show ?thesis
    by (simp add: round_to_format_def binary64_def Let_def round_half_even_def)
qed

lemma literal_0_001_binary32:
  "round_to_format binary32 (1152921504606847 / 2 ^ 60) = Some (8589935 / 2 ^ 33)"
proof -
  have "scale_up 149 24 (1152921504606847 / 2 ^ 60) = 33"
    by (simp add: eval_nat_numeral)
  then show ?thesis
    by (simp add: round_to_format_def binary32_def Let_def round_half_even_def)
qed

lemma literal_0_001_binary64:
  "round_to_format binary64 (1152921504606847 / 2 ^ 60) = Some (1152921504606847 / 2 ^ 60)"
proof -
  have "scale_up 1074 53 (1152921504606847 / 2 ^ 60) = 62"
    by (simp add: eval_nat_numeral)
  then show ?thesis
    by (simp add: round_to_format_def binary64_def Let_def round_half_even_def)
qed

lemma default_binary32:
  "UpdatableComponent_default binary32
     = Some \<lparr> learning_rate_mem = 8589935 / 2 ^ 33, is_gradient_mem = None \<rparr>"
  unfolding UpdatableComponent_default_def
  by (simp only: literal_0_001 literal_0_001_binary32 option.case)

lemma default_binary64:
  "UpdatableComponent_default binary64
     = Some \<lparr> learning_rate_mem = 1152921504606847 / 2 ^ 60, is_gradient_mem = None \<rparr>"
  unfolding UpdatableComponent_default_def
  by (simp only: literal_0_001 literal_0_001_binary64 option.case)

text \<open>
  C10 (as stated, refuted). The claim says that after \<open>UpdatableComponent()\<close>,
  \<open>LearningRate()\<close> is exactly 0.001. The member holds the literal rounded to \<open>BaseFloat\<close>:
  8589935 / 2^33 when \<open>BaseFloat\<close> is \<open>float\<close> and 1152921504606847 / 2^60 when it is
  \<open>double\<close>, and neither number is 0.001.
\<close>

theorem default_learning_rate_exact_counterexample:
  "map_option LearningRate (UpdatableComponent_default binary32) = Some (8589935 / 2 ^ 33)
   \<and> (8589935 / 2 ^ 33 :: real) \<noteq> 0.001
   \<and> map_option LearningRate (UpdatableComponent_default binary64)
       = Some (1152921504606847 / 2 ^ 60)
   \<and> (1152921504606847 / 2 ^ 60 :: real) \<noteq> 0.001"
  by (simp add: default_binary32 default_binary64 LearningRate_def)

text \<open>
  C10 (amended). After \<open>UpdatableComponent()\<close>, \<open>LearningRate()\<close> is 0.001 rounded to
  \<open>BaseFloat\<close>: 8589935 / 2^33 for \<open>float\<close>, less than 2^-34 (half a unit in the last
  place) away from 0.001, and 1152921504606847 / 2^60 for \<open>double\<close>, less than 2^-63 away.
  The flag \<^verbatim>\<open>is_gradient_\<close> has been given no value by the constructor: it is still
  indeterminate.
\<close>

theorem default_constructor_rounded_learning_rate:
  "map_option LearningRate (UpdatableComponent_default binary32) = Some (8589935 / 2 ^ 33)
   \<and> \<bar>8589935 / 2 ^ 33 - 0.001 :: real\<bar> < 1 / 2 ^ 34
   \<and> map_option LearningRate (UpdatableComponent_default binary64)
       = Some (1152921504606847 / 2 ^ 60)
   \<and> \<bar>1152921504606847 / 2 ^ 60 - 0.001 :: real\<bar> < 1 / 2 ^ 63
   \<and> map_option is_gradient_mem (UpdatableComponent_default binary32) = Some None
   \<and> map_option is_gradient_mem (UpdatableComponent_default binary64) = Some None"
  by (simp add: default_binary32 default_binary64 LearningRate_def)

subsection \<open>Component::GetInputIndexes\<close>

text \<open>
  C3. For every simple component (\<open>Properties()\<close> has the bit \<open>kSimpleComponent\<close>), every
  misc-info and every output index, \<open>GetInputIndexes\<close> (the body of class \<open>Component\<close>)
  returns the list with exactly one element, the output index itself.
\<close>

theorem GetInputIndexes_simple_singleton:
  "Properties this AND kSimpleComponent \<noteq> 0 \<Longrightarrow>
   Component_GetInputIndexes this misc_info output_index = [output_index]"
  by (simp add: Component_GetInputIndexes_def)

theorem GetInputIndexes_simple_singleton_witness:
  "Properties \<lparr> Type = ''TanhComponent'', InputDim = 8, OutputDim = 8,
                Properties = 0x061 \<rparr> AND kSimpleComponent \<noteq> 0
   \<and> Component_GetInputIndexes
        \<lparr> Type = ''TanhComponent'', InputDim = 8, OutputDim = 8, Properties = 0x061 \<rparr>
        () (0 :: int, 5 :: int, 0 :: int) = [(0, 5, 0)]"
proof -
  have simple: "Properties \<lparr> Type = ''TanhComponent'', InputDim = 8, OutputDim = 8,
                  Properties = 0x061 \<rparr> AND kSimpleComponent \<noteq> 0"
    by (simp add: kSimpleComponent_def)
  show ?thesis
    using GetInputIndexes_simple_singleton [OF simple] simple by simp
qed

subsection \<open>UpdatableComponent::SetZero\<close>

text \<open>
  C5. After \<open>SetZero(true)\<close> the component is marked as a gradient, \<open>LearningRate()\<close> is
  1.0, and every parameter value is 0 (the parameters are as many as before).
\<close>

theorem SetZero_true:
  "is_gradient_mem (SetZero True this) = Some True
   \<and> LearningRate (SetZero True this) = 1.0
   \<and> params_mem (SetZero True this) = replicate (length (params_mem this)) 0"
  by (simp add: SetZero_def LearningRate_def Let_def map_replicate_const)

subsection \<open>NewComponentOfType and ReadNew on an unknown type name\<close>

text \<open>
  C9. For a type name that is not in the registry, \<open>NewComponentOfType\<close> returns the null
  pointer and not an error, while \<open>ReadNew\<close> on a stream whose leading token is that name
  fails with the unknown-type error.
\<close>

theorem unknown_type_null_or_error:
  "type_name \<notin> dom registry \<Longrightarrow>
   NewComponentOfType registry type_name = Inr None
   \<and> ReadNew registry Read (type_name # rest) binary = Inl UnknownType"
  by (simp add: NewComponentOfType_def ReadNew_def domIff)

theorem unknown_type_null_or_error_witness:
  "''NoSuchComponent'' \<notin> dom [''SigmoidComponent'' \<mapsto> (0x021 :: int32)]
   \<and> NewComponentOfType [''SigmoidComponent'' \<mapsto> (0x021 :: int32)]
        ''NoSuchComponent'' = Inr None
   \<and> ReadNew [''SigmoidComponent'' \<mapsto> (0x021 :: int32)] (\<lambda>c is binary. Inr c)
        [''NoSuchComponent'', ''<Dim>''] True = Inl UnknownType"
proof -
  have unknown: "''NoSuchComponent'' \<notin> dom [''SigmoidComponent'' \<mapsto> (0x021 :: int32)]"
    by simp
  show ?thesis
    using unknown_type_null_or_error [OF unknown] unknown by simp
qed

subsection \<open>NonlinearComponent::UpdateStats\<close>



lemma length_AddVec_Resize: "length w = n \<Longrightarrow> length (AddVec (Resize n v) w) = n"
  by (simp add: AddVec_def Resize_def)





subsection \<open>CuSparseMatrix: assignment from a host matrix and back\<close>

lemma nth_Cons_shift: "k < r \<Longrightarrow> (v # vs) ! (r - k) = vs ! (r - Suc k)"
proof -
  assume "k < r"
  then have "r - k = Suc (r - Suc k)" by arith
  then show ?thesis by simp
qed

lemma set_flatten_rows:
  "set (flatten_rows k smat) =
     {(r, c, x). k \<le> r \<and> r < k + length smat \<and> (c, x) \<in> set (smat ! (r - k))}"
proof (induction smat arbitrary: k)
  case Nil
  then show ?case by auto
next
  case (Cons v vs)
  have split_row:
    "(k \<le> r \<and> r < k + length (v # vs) \<and> (c, x) \<in> set ((v # vs) ! (r - k)))
        = ((r = k \<and> (c, x) \<in> set v)
            \<or> (Suc k \<le> r \<and> r < Suc k + length vs \<and> (c, x) \<in> set (vs ! (r - Suc k))))"
    for r c x
  proof (cases "r = k")
    case True
    then show ?thesis by simp
  next
    case False
    then show ?thesis
      using nth_Cons_shift [of k r v vs] by auto
  qed
  have "set (flatten_rows k (v # vs)) =
          {(r, c, x). r = k \<and> (c, x) \<in> set v} \<union> set (flatten_rows (Suc k) vs)"
    by auto
  also have "\<dots> = {(r, c, x). (r = k \<and> (c, x) \<in> set v)
            \<or> (Suc k \<le> r \<and> r < Suc k + length vs \<and> (c, x) \<in> set (vs ! (r - Suc k)))}"
    unfolding Cons.IH by auto
  finally show ?case
    by (simp only: split_row)
qed

lemma fold_rows_mono: "m \<le> fold (\<lambda>e n. max n (Suc (fst e))) elems m"
proof (induction elems arbitrary: m)
  case Nil
  then show ?case by simp
next
  case (Cons e es)
  have "m \<le> max m (Suc (fst e))" by simp
  also have "\<dots> \<le> fold (\<lambda>e n. max n (Suc (fst e))) es (max m (Suc (fst e)))"
    by (rule Cons.IH)
  finally show ?case by simp
qed

lemma fold_rows_gt:
  "e \<in> set elems \<Longrightarrow> fst e < fold (\<lambda>e n. max n (Suc (fst e))) elems m"
proof (induction elems arbitrary: m)
  case Nil
  then show ?case by simp
next
  case (Cons a es)
  show ?case
  proof (cases "e = a")
    case True
    have "fst e < max m (Suc (fst a))" using True by simp
    also have "\<dots> \<le> fold (\<lambda>e n. max n (Suc (fst e))) es (max m (Suc (fst a)))"
      by (rule fold_rows_mono)
    finally show ?thesis by simp
  next
    case False
    then have "e \<in> set es" using Cons.prems by simp
    then show ?thesis using Cons.IH by simp
  qed
qed

lemma rows_needed_gt: "e \<in> set elems \<Longrightarrow> fst e < rows_needed elems"
  unfolding rows_needed_def by (rule fold_rows_gt)

lemma entries_group_rows: "entries (group_rows elems) = set elems"
proof (rule set_eqI)
  fix e :: "nat \<times> nat \<times> 'a"
  obtain r c x where e: "e = (r, c, x)" by (cases e) auto
  show "e \<in> entries (group_rows elems) \<longleftrightarrow> e \<in> set elems"
  proof
    assume "e \<in> entries (group_rows elems)"
    then show "e \<in> set elems"
      by (auto simp: e entries_def group_rows_def row_of_def)
  next
    assume mem: "e \<in> set elems"
    then have "r < rows_needed elems"
      using rows_needed_gt [of e elems] by (simp add: e)
    moreover have "(c, x) \<in> set (row_of elems r)"
      using mem by (force simp: e row_of_def)
    ultimately show "e \<in> entries (group_rows elems)"
      by (simp add: e entries_def group_rows_def)
  qed
qed

lemma entries_flatten_rows: "set (flatten_rows 0 smat) = entries smat"
  by (simp add: set_flatten_rows entries_def)

text \<open>
  C7. A host sparse matrix assigned to a device sparse matrix and converted back to host
  form (directly, or by swapping the content out into a host matrix) has the same set of
  (row, column, value) entries as before, whether the row lists (GPU not enabled) or the
  flat element list (GPU enabled) held the content in between. Through the row lists the
  host matrix comes back as it was, row for row.
\<close>

theorem assign_to_host_entries:
  "entries (CuSparseMatrix_to_host enabled (CuSparseMatrix_assign enabled smat this))
     = entries smat
   \<and> entries (snd (CuSparseMatrix_Swap enabled other
        (CuSparseMatrix_assign enabled smat this))) = entries smat
   \<and> CuSparseMatrix_to_host False (CuSparseMatrix_assign False smat this) = smat"
  by (simp add: CuSparseMatrix_to_host_def CuSparseMatrix_assign_def CuSparseMatrix_Swap_def
      entries_group_rows entries_flatten_rows)



end
